theory Spec2Isabelle
  imports Main
begin

section \<open>Python values, exceptions and the outside world\<close>

text \<open>
  A Python \<open>str\<close> is the list of its UTF-8 bytes. Concatenation, \<open>str.join\<close> and equality
  of strings are the same on the bytes as on the code points. The accented letters of the
  Spanish literals in the source are written out as their two bytes.
\<close>

type_synonym pystr = string

definition a_acute :: pystr where "a_acute = [CHR 0xC3, CHR 0xA1]"
definition i_acute :: pystr where "i_acute = [CHR 0xC3, CHR 0xAD]"
definition o_acute :: pystr where "o_acute = [CHR 0xC3, CHR 0xB3]"

text \<open>
  Exceptions. \<open>ValueError\<close> and \<open>RuntimeError\<close> are the two classes the sources raise
  themselves; \<open>OtherException cls msg\<close> is any other instance of \<open>Exception\<close> coming out of
  a library (class name and \<open>str(e)\<close>); \<open>NonException cls msg\<close> is an instance of
  \<open>BaseException\<close> that is not an \<open>Exception\<close>: \<open>asyncio.CancelledError\<close>,
  \<open>KeyboardInterrupt\<close>, \<open>SystemExit\<close>, \<open>GeneratorExit\<close>. A handler \<open>except Exception\<close>
  catches the first three kinds and lets the last one through.
\<close>

datatype exn =
    ValueError pystr
  | RuntimeError pystr
  | OtherException pystr pystr
  | NonException pystr pystr

fun is_Exception :: "exn \<Rightarrow> bool" where
  "is_Exception (NonException cls msg) = False"
| "is_Exception e = True"

fun str_exn :: "exn \<Rightarrow> pystr" where
  "str_exn (ValueError msg) = msg"
| "str_exn (RuntimeError msg) = msg"
| "str_exn (OtherException cls msg) = msg"
| "str_exn (NonException cls msg) = msg"

text \<open>\<open>sep.join(xs)\<close> on a list of strings.\<close>

fun join :: "pystr \<Rightarrow> pystr list \<Rightarrow> pystr" where
  "join sep [] = []"
| "join sep [x] = x"
| "join sep (x # y # ys) = x @ sep @ join sep (y # ys)"

text \<open>Truthiness of a \<open>str\<close> and of an \<open>Optional[str]\<close>: \<open>not s\<close>.\<close>

definition not_str :: "pystr \<Rightarrow> bool" where
  "not_str s = (s = [])"

definition not_opt_str :: "pystr option \<Rightarrow> bool" where
  "not_opt_str s = (case s of None \<Rightarrow> True | Some v \<Rightarrow> v = [])"

text \<open>
  The process environment, read with \<open>os.getenv(key)\<close> and \<open>os.getenv(key, default)\<close>.
\<close>

type_synonym environ = "pystr \<rightharpoonup> pystr"

definition getenv :: "environ \<Rightarrow> pystr \<Rightarrow> pystr option" where
  "getenv env key = env key"

definition getenv_default :: "environ \<Rightarrow> pystr \<Rightarrow> pystr \<Rightarrow> pystr" where
  "getenv_default env key dflt = (case env key of None \<Rightarrow> dflt | Some v \<Rightarrow> v)"

subsection \<open>Handles and values of the libraries\<close>

text \<open>
  The objects the libraries hand out are modelled by the arguments they were built from:
  a \<open>chromadb.CloudClient\<close>, an \<open>OpenAIEmbeddingFunction\<close>, a \<open>chromadb.Collection\<close>
  (the client that opened it, its name, its embedding function and its HNSW configuration)
  and an \<open>agents.SQLiteSession\<close> (session id and database path).
\<close>

datatype client = CloudClient (api_key: pystr) (tenant: pystr) (database_name: pystr)

datatype embedder = OpenAIEmbeddingFunction (openai_key: pystr) (model_name: pystr)

record hnsw =
  space :: pystr
  ef_construction :: int

datatype collection =
  Collection (coll_client: client) (coll_name: pystr) (coll_embedder: embedder) (coll_hnsw: hnsw)

record session =
  session_id :: pystr
  db_path :: pystr

type_synonym metadata = "(pystr \<times> pystr) list"

text \<open>
  The dictionary returned by \<open>Collection.query\<close>: one inner list per query text. The
  \<open>documents\<close> and \<open>metadatas\<close> entries are \<open>None\<close> when they were not included. The
  distances are floating-point numbers that no function of the sources reads; they are
  left out.
\<close>

record QueryResult =
  ids :: "pystr list list"
  documents :: "pystr list list option"
  metadatas :: "metadata list list option"

text \<open>
  A history item (\<open>TResponseInputItem\<close>), an agent with its handoff list, whose entries are
  either an \<open>Agent\<close> passed as it is or the \<open>Handoff\<close> object that \<open>handoff(agent)\<close>
  returns, and the result of a run.
\<close>

datatype item = Item (role: pystr) (content: pystr)

datatype agent =
  Agent (agent_name: pystr) (agent_model: "pystr option") (instructions: pystr)
        (tools: "pystr list") (handoffs: "handoff_entry list")
and handoff_entry =
    Plain agent
  | Handoff agent

definition handoff :: "agent \<Rightarrow> handoff_entry" where
  "handoff a = Handoff a"

record RunResult =
  final_output :: pystr

subsection \<open>The outside world and the log of library calls\<close>

text \<open>
  Everything outside the process (the hosted vector database, the SQLite file, the model
  behind the agent runtime) is a state of an arbitrary type \<open>'st\<close>. Every call into a
  library is one \<open>call\<close>; the world keeps the list of the calls made so far, so that
  "without contacting the store" is a statement about that list.
\<close>

datatype call =
    New_CloudClient client
  | New_OpenAIEmbeddingFunction embedder
  | Get_or_create_collection collection
  | Delete_collection client pystr
  | Collection_add collection "pystr list" "pystr list" "metadata list"
  | Collection_upsert collection "pystr list" "metadata list" "pystr list"
  | Collection_query collection "pystr list" int "pystr list"
  | New_SQLiteSession session
  | Session_get_items session
  | Runner_run agent pystr session

record 'st world =
  store :: 'st
  calls :: "call list"

type_synonym ('st, 'a) io = "'st world \<Rightarrow> (exn + 'a) \<times> 'st world"

definition lib :: "call \<Rightarrow> ('st \<Rightarrow> (exn + 'a) \<times> 'st) \<Rightarrow> ('st, 'a) io" where
  "lib c op w =
     (case op (store w) of (r, st') \<Rightarrow> (r, \<lparr>store = st', calls = calls w @ [c]\<rparr>))"

definition raise :: "exn \<Rightarrow> ('st, 'a) io" where
  "raise e w = (Inl e, w)"

definition return :: "'a \<Rightarrow> ('st, 'a) io" where
  "return a w = (Inr a, w)"

definition bind :: "('st, 'a) io \<Rightarrow> ('a \<Rightarrow> ('st, 'b) io) \<Rightarrow> ('st, 'b) io" where
  "bind m f w = (case m w of (Inl e, w') \<Rightarrow> (Inl e, w') | (Inr a, w') \<Rightarrow> f a w')"

text \<open>
  The library \<open>chromadb\<close> and the embedding function are not part of the repository: what
  each of their operations does to the outside world, and whether it raises, is a
  parameter.
\<close>

record 'st chroma_api =
  cloud_client_init :: "client \<Rightarrow> 'st \<Rightarrow> (exn + unit) \<times> 'st"
  embedding_function_init :: "embedder \<Rightarrow> 'st \<Rightarrow> (exn + unit) \<times> 'st"
  get_or_create_collection :: "collection \<Rightarrow> 'st \<Rightarrow> (exn + unit) \<times> 'st"
  delete_collection :: "client \<Rightarrow> pystr \<Rightarrow> 'st \<Rightarrow> (exn + unit) \<times> 'st"
  collection_add ::
    "collection \<Rightarrow> pystr list \<Rightarrow> pystr list \<Rightarrow> metadata list \<Rightarrow> 'st \<Rightarrow> (exn + unit) \<times> 'st"
  collection_upsert ::
    "collection \<Rightarrow> pystr list \<Rightarrow> metadata list \<Rightarrow> pystr list \<Rightarrow> 'st \<Rightarrow> (exn + unit) \<times> 'st"
  collection_query ::
    "collection \<Rightarrow> pystr list \<Rightarrow> int \<Rightarrow> pystr list \<Rightarrow> 'st \<Rightarrow> (exn + QueryResult) \<times> 'st"

section \<open>chroma.py: the knowledge store client\<close>

record ChromaConfig =
  database :: pystr
  path :: pystr
  openai_api_key :: "pystr option"
  openai_model :: pystr

text \<open>
  The attributes of \<open>ChromaConfig\<close> are class-level defaults: their \<open>os.getenv\<close> calls
  run once, when the module is imported, on the environment of that moment. Every later
  \<open>ChromaConfig()\<close> returns these same values, whatever the environment has become. So
  the functions below take the defaults as a value, \<open>defaults\<close>, and
  \<open>ChromaConfig_defaults\<close> says how the import computed them.
\<close>

definition ChromaConfig_defaults :: "environ \<Rightarrow> ChromaConfig" where
  "ChromaConfig_defaults env_at_import =
     \<lparr>database = getenv_default env_at_import ''CHROMA_DATABASE_NAME'' ''Development'',
      path = getenv_default env_at_import ''CHROMA_PATH'' ''Development'',
      openai_api_key = getenv env_at_import ''OPENAI_API_KEY'',
      openai_model =
        getenv_default env_at_import ''OPENAI_EMBEDDING_MODEL'' ''text-embedding-3-small''\<rparr>"

text \<open>
  A \<open>ChromaService\<close> object: its configuration, the cached client behind the \<open>client\<close>
  property, and the attribute \<open>collection\<close> that only \<open>reset_collection\<close> assigns.
\<close>

record ChromaService =
  cfg :: ChromaConfig
  cached_client :: "client option"
  collection :: "collection option"

definition validate_cfg :: "ChromaConfig \<Rightarrow> exn + unit" where
  "validate_cfg c =
     (if not_str (database c) then Inl (ValueError ''CHROMA_DATABASE no configurada.'')
      else Inr ())"

definition ChromaService_init ::
  "ChromaConfig option \<Rightarrow> ChromaConfig \<Rightarrow> exn + ChromaService" where
  "ChromaService_init cfg_arg defaults =
     (let c = (case cfg_arg of Some c \<Rightarrow> c | None \<Rightarrow> defaults)
      in case validate_cfg c of
           Inl e \<Rightarrow> Inl e
         | Inr u \<Rightarrow> Inr \<lparr>cfg = c, cached_client = None, collection = None\<rparr>)"

definition get_chroma_service :: "ChromaConfig \<Rightarrow> exn + ChromaService" where
  "get_chroma_service defaults = ChromaService_init (Some defaults) defaults"

text \<open>
  \<open>_create_client\<close>: the three settings are read from the environment; the handler logs
  and re-raises, so the exception that leaves is the one that was raised. Past the test
  each of the three is set and not empty, so \<open>the\<close> reads a \<open>Some\<close>.
\<close>

definition create_client :: "'st chroma_api \<Rightarrow> environ \<Rightarrow> ('st, client) io" where
  "create_client api env =
     (let k = getenv env ''CHROMA_API_KEY'';
          t = getenv env ''CHROMA_TENANT_ID'';
          d = getenv env ''CHROMA_DATABASE_NAME''
      in if not_opt_str k \<or> not_opt_str t \<or> not_opt_str d
         then raise (ValueError
                ''CHROMA_API_KEY, CHROMA_TENANT_ID o CHROMA_DATABASE_NAME no configuradas.'')
         else (let c = CloudClient (the k) (the t) (the d)
               in bind (lib (New_CloudClient c) (cloud_client_init api c)) (\<lambda>u. return c)))"

text \<open>The property \<open>client\<close>: creates the client once and keeps it in the object.\<close>

definition client_property ::
  "'st chroma_api \<Rightarrow> environ \<Rightarrow> ChromaService \<Rightarrow> ('st, client \<times> ChromaService) io" where
  "client_property api env svc =
     (case cached_client svc of
        Some c \<Rightarrow> return (c, svc)
      | None \<Rightarrow> bind (create_client api env)
                  (\<lambda>c. return (c, svc\<lparr>cached_client := Some c\<rparr>)))"

text \<open>
  \<open>_create_embedder\<close>: the model name passed on is the literal of the source, not the
  configured \<open>openai_model\<close>.
\<close>

definition create_embedder :: "'st chroma_api \<Rightarrow> ChromaService \<Rightarrow> ('st, embedder) io" where
  "create_embedder api svc =
     (let k = openai_api_key (cfg svc)
      in if not_opt_str k
         then raise (ValueError ''OPENAI_API_KEY no configurada y EMBEDDINGS_PROVIDER=openai.'')
         else (let e = OpenAIEmbeddingFunction (the k) ''text-embedding-3-small''
               in bind (lib (New_OpenAIEmbeddingFunction e) (embedding_function_init api e))
                    (\<lambda>u. return e)))"

definition hnsw_cosine :: hnsw where
  "hnsw_cosine = \<lparr>space = ''cosine'', ef_construction = 200\<rparr>"

text \<open>
  \<open>_get_or_create_collection\<close>: a fresh client (not the cached one), a fresh embedding
  function, then the library's \<open>get_or_create_collection\<close>.
\<close>

definition get_or_create_collection_svc ::
  "'st chroma_api \<Rightarrow> environ \<Rightarrow> ChromaService \<Rightarrow> pystr \<Rightarrow> ('st, collection) io" where
  "get_or_create_collection_svc api env svc name =
     bind (create_client api env) (\<lambda>c.
     bind (create_embedder api svc) (\<lambda>e.
       (let col = Collection c name e hnsw_cosine
        in bind (lib (Get_or_create_collection col) (get_or_create_collection api col))
             (\<lambda>u. return col))))"

text \<open>
  \<open>add_texts\<close> and \<open>upsert_texts\<close>: \<open>if not texts: return\<close>, then the collection is
  looked up and the three lists are handed to the library as they are.
\<close>

definition add_texts ::
  "'st chroma_api \<Rightarrow> environ \<Rightarrow> ChromaService \<Rightarrow>
   pystr list \<Rightarrow> pystr \<Rightarrow> metadata list \<Rightarrow> pystr list \<Rightarrow> ('st, unit) io" where
  "add_texts api env svc texts name_collection metas idents =
     (if texts = [] then return ()
      else bind (get_or_create_collection_svc api env svc name_collection) (\<lambda>col.
             lib (Collection_add col idents texts metas)
                 (collection_add api col idents texts metas)))"

definition upsert_texts ::
  "'st chroma_api \<Rightarrow> environ \<Rightarrow> ChromaService \<Rightarrow>
   pystr list \<Rightarrow> pystr \<Rightarrow> metadata list \<Rightarrow> pystr list \<Rightarrow> ('st, unit) io" where
  "upsert_texts api env svc texts name_collection metas idents =
     (if texts = [] then return ()
      else bind (get_or_create_collection_svc api env svc name_collection) (\<lambda>col.
             lib (Collection_upsert col texts metas idents)
                 (collection_upsert api col texts metas idents)))"

text \<open>
  \<open>query\<close>: looks the collection up, queries it with the three included fields and
  returns the library's result unchanged (what it reads of the result in between is
  only logged).
\<close>

definition query_include :: "pystr list" where
  "query_include = [''documents'', ''metadatas'', ''distances'']"

definition query ::
  "'st chroma_api \<Rightarrow> environ \<Rightarrow> ChromaService \<Rightarrow>
   pystr \<Rightarrow> pystr list \<Rightarrow> int \<Rightarrow> ('st, QueryResult) io" where
  "query api env svc name_collection query_texts n_results =
     bind (get_or_create_collection_svc api env svc name_collection) (\<lambda>col.
       lib (Collection_query col query_texts n_results query_include)
           (collection_query api col query_texts n_results query_include))"

text \<open>
  \<open>reset_collection\<close>: deletes through the cached client, then looks the collection up
  again and stores the handle in the object. The object is returned with the result,
  since the property may have filled the cache before the call raised.
\<close>

definition reset_collection ::
  "'st chroma_api \<Rightarrow> environ \<Rightarrow> ChromaService \<Rightarrow> pystr \<Rightarrow>
   'st world \<Rightarrow> (exn + unit) \<times> ChromaService \<times> 'st world" where
  "reset_collection api env svc name_collection w =
     (case client_property api env svc w of
        (Inl e, w1) \<Rightarrow> (Inl e, svc, w1)
      | (Inr (c, svc1), w1) \<Rightarrow>
          (case lib (Delete_collection c name_collection)
                    (delete_collection api c name_collection) w1 of
             (Inl e, w2) \<Rightarrow> (Inl e, svc1, w2)
           | (Inr u, w2) \<Rightarrow>
               (case get_or_create_collection_svc api env svc1 name_collection w2 of
                  (Inl e, w3) \<Rightarrow> (Inl e, svc1, w3)
                | (Inr col, w3) \<Rightarrow> (Inr (), svc1\<lparr>collection := Some col\<rparr>, w3))))"

section \<open>types/enums.py and agente_examenes_salud_mental.py: the retrieval tool\<close>

datatype ChromaCollections =
    SIGSA
  | TRANSTORNOS_DE_SALUD_MENTAL
  | EXAMENES_DE_SALUD_MENTAL
  | RESPUESTAS_DE_SALUD_MENTAL
  | SALUD_MENTAL_COLLOQUIAL

fun enum_value :: "ChromaCollections \<Rightarrow> pystr" where
  "enum_value SIGSA = ''sigsa''"
| "enum_value TRANSTORNOS_DE_SALUD_MENTAL = ''mental_health_disorders''"
| "enum_value EXAMENES_DE_SALUD_MENTAL = ''mental_health_screenings''"
| "enum_value RESPUESTAS_DE_SALUD_MENTAL = ''mental_health_responses''"
| "enum_value SALUD_MENTAL_COLLOQUIAL = ''mental_health_colloquial''"

definition informacion_encontrada :: pystr where
  "informacion_encontrada = ''Informaci'' @ o_acute @ ''n encontrada:\<newline>''"

definition no_se_encontro :: pystr where
  "no_se_encontro =
     ''No se encontr'' @ o_acute @ '' informaci'' @ o_acute @ ''n relevante.''"

text \<open>
  \<open>buscar_conocimiento_con_RAG\<close>, with the module's \<open>chroma_service\<close> as an argument. The
  test \<open>if results['documents']\<close> is on the outer list (or \<open>None\<close>); under it the inner list
  of the first query text is joined.
\<close>

definition buscar_conocimiento_con_RAG ::
  "'st chroma_api \<Rightarrow> environ \<Rightarrow> ChromaService \<Rightarrow> pystr \<Rightarrow> ('st, pystr) io" where
  "buscar_conocimiento_con_RAG api env chroma_service q =
     bind (query api env chroma_service (enum_value EXAMENES_DE_SALUD_MENTAL) [q] 3)
       (\<lambda>results.
          (case documents results of
             None \<Rightarrow> return no_se_encontro
           | Some [] \<Rightarrow> return no_se_encontro
           | Some (first # rest) \<Rightarrow>
               return (informacion_encontrada @ join ''\<newline>\<newline>'' first)))"

text \<open>
  \<open>agente_de_examenes_salud_mental\<close>: the only responder whose module is among the
  sources. A tool is listed by the name it is registered under.
\<close>

definition agente_de_examenes_salud_mental :: agent where
  "agente_de_examenes_salud_mental =
     Agent ''AgenteDeExamenesDeSaludMental'' None
       (''Eres un agente que proporciona respuestas sobre ex'' @ a_acute
          @ ''menes de salud mental.\<newline>''
        @ ''    Usa buscar_conocimiento_con_RAG.\<newline>''
        @ ''    Siempre basa tus respuestas en la informaci'' @ o_acute
          @ ''n recuperada. Si no hay informaci'' @ o_acute @ ''n relevante, ind''
          @ i_acute @ ''calo.\<newline>''
        @ ''    Responde de manera clara y concisa.'')
       [''buscar_conocimiento_con_RAG''] []"

section \<open>agente_principal.py: the principal agent\<close>

text \<open>
  The modules of the other three responders are not among the sources; what their
  constructors return, or raise, is a parameter. So is \<open>SYSTEM_PROMPT\<close>, which starts with
  a constant of the agent library.
\<close>

record responders =
  agente_de_respuestas_salud_mental :: "exn + agent"
  agente_de_salud_mental_coloquial :: "exn + agent"
  agente_de_transtornos_salud_mental :: "exn + agent"

record PsychologyClinicAgent =
  model :: pystr
  chroma :: ChromaService

definition PsychologyClinicAgent_init :: "ChromaConfig \<Rightarrow> exn + PsychologyClinicAgent" where
  "PsychologyClinicAgent_init defaults =
     (case get_chroma_service defaults of
        Inl e \<Rightarrow> Inl e
      | Inr svc \<Rightarrow> Inr \<lparr>model = ''gpt-5-mini'', chroma = svc\<rparr>)"

text \<open>
  \<open>agentPsychology\<close>: first its \<open>try\<close> block, which builds the four responders in the
  order of the source and then the principal agent, then the handler, which turns every
  \<open>Exception\<close> into a \<open>RuntimeError\<close>.
\<close>

definition agentPsychology_try ::
  "responders \<Rightarrow> pystr \<Rightarrow> PsychologyClinicAgent \<Rightarrow> pystr \<Rightarrow> pystr \<Rightarrow> exn + agent" where
  "agentPsychology_try rs SYSTEM_PROMPT self user_id user_message =
     (let agente_examenes = agente_de_examenes_salud_mental
      in case agente_de_transtornos_salud_mental rs of
           Inl e \<Rightarrow> Inl e
         | Inr agente_transtornos \<Rightarrow>
        (case agente_de_salud_mental_coloquial rs of
           Inl e \<Rightarrow> Inl e
         | Inr agente_coloquial \<Rightarrow>
        (case agente_de_respuestas_salud_mental rs of
           Inl e \<Rightarrow> Inl e
         | Inr agente_respuestas \<Rightarrow>
             Inr (Agent ''TerapyBot'' (Some (model self)) SYSTEM_PROMPT []
                    [Plain agente_respuestas, handoff agente_coloquial,
                     handoff agente_transtornos, handoff agente_examenes]))))"

definition agentPsychology ::
  "responders \<Rightarrow> pystr \<Rightarrow> PsychologyClinicAgent \<Rightarrow> pystr \<Rightarrow> pystr \<Rightarrow> exn + agent" where
  "agentPsychology rs SYSTEM_PROMPT self user_id user_message =
     (case agentPsychology_try rs SYSTEM_PROMPT self user_id user_message of
        Inr a \<Rightarrow> Inr a
      | Inl e \<Rightarrow>
          (if is_Exception e
           then Inl (RuntimeError (''Error al procesar mensaje: '' @ str_exn e))
           else Inl e))"

fun is_plain :: "handoff_entry \<Rightarrow> bool" where
  "is_plain (Plain a) = True"
| "is_plain (Handoff a) = False"

fun is_handoff :: "handoff_entry \<Rightarrow> bool" where
  "is_handoff (Plain a) = False"
| "is_handoff (Handoff a) = True"

section \<open>messages.py and orquestador.py: history and the orchestrator\<close>

text \<open>
  The agent library (\<open>SQLiteSession\<close>, \<open>Runner\<close>) is not part of the repository: what
  opening a session, reading its items and running a turn do to the outside world, and
  whether they raise, is a parameter.
\<close>

record 'st agents_api =
  sqlite_session_init :: "session \<Rightarrow> 'st \<Rightarrow> (exn + unit) \<times> 'st"
  get_items :: "session \<Rightarrow> 'st \<Rightarrow> (exn + item list) \<times> 'st"
  runner_run :: "agent \<Rightarrow> pystr \<Rightarrow> session \<Rightarrow> 'st \<Rightarrow> (exn + RunResult) \<times> 'st"

text \<open>\<open>Message.create_and_get_session_id\<close>.\<close>

definition create_and_get_session_id :: "'st agents_api \<Rightarrow> pystr \<Rightarrow> ('st, session) io" where
  "create_and_get_session_id api user_id =
     (let sid = ''session_'' @ user_id;
          s = \<lparr>session_id = sid, db_path = ''conversations.db''\<rparr>
      in bind (lib (New_SQLiteSession s) (sqlite_session_init api s)) (\<lambda>u. return s))"

text \<open>
  An \<open>Orquestador\<close> object, and the dictionary \<open>generate_response\<close> returns: its values
  are a string or a list of items.
\<close>

record Orquestador =
  user_id :: pystr
  message :: pystr
  history :: "session option"

definition Orquestador_init :: "pystr \<Rightarrow> pystr \<Rightarrow> Orquestador" where
  "Orquestador_init uid msg = \<lparr>user_id = uid, message = msg, history = None\<rparr>"

datatype pyval = Str pystr | Items "item list"

type_synonym pydict = "pystr \<rightharpoonup> pyval"

text \<open>\<open>_create_history_session\<close>: its handler logs and re-raises.\<close>

definition create_history_session :: "'st agents_api \<Rightarrow> pystr \<Rightarrow> ('st, session) io" where
  "create_history_session api uid = create_and_get_session_id api uid"

text \<open>\<open>_get_all_history\<close>; the user id is only logged.\<close>

definition get_all_history ::
  "'st agents_api \<Rightarrow> Orquestador \<Rightarrow> pystr \<Rightarrow> ('st, item list) io" where
  "get_all_history api self uid =
     (case history self of
        None \<Rightarrow> return []
      | Some h \<Rightarrow> lib (Session_get_items h) (get_items api h))"

text \<open>
  \<open>generate_response\<close>: first its \<open>try\<close> block, step by step, with the object as the
  assignment to \<open>self.history\<close> leaves it; then the handler \<open>except Exception\<close>.
\<close>

definition generate_response_try ::
  "'st agents_api \<Rightarrow> responders \<Rightarrow> pystr \<Rightarrow> ChromaConfig \<Rightarrow> Orquestador \<Rightarrow>
   'st world \<Rightarrow> (exn + pydict) \<times> Orquestador \<times> 'st world" where
  "generate_response_try api rs SYSTEM_PROMPT defaults self w =
     (case (case history self of
              None \<Rightarrow> create_history_session api (user_id self) w
            | Some h \<Rightarrow> (Inr h, w)) of
        (Inl e, w1) \<Rightarrow> (Inl e, self, w1)
      | (Inr h, w1) \<Rightarrow>
     (let self1 = self\<lparr>history := Some h\<rparr>
      in case PsychologyClinicAgent_init defaults of
           Inl e \<Rightarrow> (Inl e, self1, w1)
         | Inr psychologyClinicAgent \<Rightarrow>
        (case agentPsychology rs SYSTEM_PROMPT psychologyClinicAgent
                (user_id self1) (message self1) of
           Inl e \<Rightarrow> (Inl e, self1, w1)
         | Inr a \<Rightarrow>
        (case lib (Runner_run a (message self1) h)
                  (runner_run api a (message self1) h) w1 of
           (Inl e, w2) \<Rightarrow> (Inl e, self1, w2)
         | (Inr result, w2) \<Rightarrow>
        (case get_all_history api self1 (user_id self1) w2 of
           (Inl e, w3) \<Rightarrow> (Inl e, self1, w3)
         | (Inr hist, w3) \<Rightarrow>
             (Inr [''respuesta'' \<mapsto> Str (final_output result), ''historial'' \<mapsto> Items hist],
              self1, w3))))))"

definition generate_response ::
  "'st agents_api \<Rightarrow> responders \<Rightarrow> pystr \<Rightarrow> ChromaConfig \<Rightarrow> Orquestador \<Rightarrow>
   'st world \<Rightarrow> (exn + pydict) \<times> Orquestador \<times> 'st world" where
  "generate_response api rs SYSTEM_PROMPT defaults self w =
     (case generate_response_try api rs SYSTEM_PROMPT defaults self w of
        (Inr d, self', w') \<Rightarrow> (Inr d, self', w')
      | (Inl e, self', w') \<Rightarrow>
          (if is_Exception e
           then (Inr [''error'' \<mapsto> Str (''Error procesando la solicitud: '' @ str_exn e)],
                 self', w')
           else (Inl e, self', w')))"

section \<open>A reference store\<close>

text \<open>
  An in-memory stand-in for the outside world, on which the theorems below are run on
  concrete inputs: named collections of (id, document, metadata) rows and one item log
  per session. Connecting and building an embedding function always succeed; a collection
  is created empty on first use; deleting an absent collection raises; adding and
  upserting check the three lengths; a query returns, for each query text, the first
  \<open>n_results\<close> rows in the order the collection holds them.
\<close>

type_synonym row = "pystr \<times> pystr \<times> metadata"

record mem =
  collections :: "(pystr \<times> row list) list"
  logs :: "((pystr \<times> pystr) \<times> item list) list"

definition rows_of :: "mem \<Rightarrow> pystr \<Rightarrow> row list" where
  "rows_of st n = (case map_of (collections st) n of None \<Rightarrow> [] | Some rs \<Rightarrow> rs)"

definition has_collection :: "mem \<Rightarrow> pystr \<Rightarrow> bool" where
  "has_collection st n = (case map_of (collections st) n of None \<Rightarrow> False | Some rs \<Rightarrow> True)"

definition put_rows :: "pystr \<Rightarrow> row list \<Rightarrow> mem \<Rightarrow> mem" where
  "put_rows n rs st =
     st\<lparr>collections := (n, rs) # filter (\<lambda>p. \<not> (fst p = n)) (collections st)\<rparr>"

definition drop_collection :: "pystr \<Rightarrow> mem \<Rightarrow> mem" where
  "drop_collection n st = st\<lparr>collections := filter (\<lambda>p. \<not> (fst p = n)) (collections st)\<rparr>"

fun zip3 :: "pystr list \<Rightarrow> pystr list \<Rightarrow> metadata list \<Rightarrow> row list" where
  "zip3 (i # is) (d # ds) (m # ms) = (i, d, m) # zip3 is ds ms"
| "zip3 is ds ms = []"

definition same_lengths :: "pystr list \<Rightarrow> pystr list \<Rightarrow> metadata list \<Rightarrow> bool" where
  "same_lengths is ds ms = (length is = length ds \<and> length ms = length ds)"

definition mem_write ::
  "collection \<Rightarrow> pystr list \<Rightarrow> pystr list \<Rightarrow> metadata list \<Rightarrow> mem \<Rightarrow> (exn + unit) \<times> mem" where
  "mem_write col is ds ms st =
     (if same_lengths is ds ms
      then (Inr (),
            put_rows (coll_name col)
              (filter (\<lambda>r. fst r \<notin> set is) (rows_of st (coll_name col)) @ zip3 is ds ms) st)
      else (Inl (ValueError ''Unequal lengths''), st))"

definition mem_query :: "collection \<Rightarrow> pystr list \<Rightarrow> int \<Rightarrow> mem \<Rightarrow> QueryResult" where
  "mem_query col qs n st =
     (let top = take (nat n) (rows_of st (coll_name col))
      in \<lparr>ids = map (\<lambda>q. map fst top) qs,
          documents = Some (map (\<lambda>q. map (\<lambda>r. fst (snd r)) top) qs),
          metadatas = Some (map (\<lambda>q. map (\<lambda>r. snd (snd r)) top) qs)\<rparr>)"

definition mem_chroma :: "mem chroma_api" where
  "mem_chroma =
     \<lparr>cloud_client_init = (\<lambda>c st. (Inr (), st)),
      embedding_function_init = (\<lambda>e st. (Inr (), st)),
      get_or_create_collection = (\<lambda>col st.
         (Inr (), if has_collection st (coll_name col) then st
                  else put_rows (coll_name col) [] st)),
      delete_collection = (\<lambda>c n st.
         if has_collection st n then (Inr (), drop_collection n st)
         else (Inl (OtherException ''NotFoundError'' n), st)),
      collection_add = (\<lambda>col is ds ms st. mem_write col is ds ms st),
      collection_upsert = (\<lambda>col ds ms is st. mem_write col is ds ms st),
      collection_query = (\<lambda>col qs n incl st. (Inr (mem_query col qs n st), st))\<rparr>"

definition log_of :: "mem \<Rightarrow> session \<Rightarrow> item list" where
  "log_of st s =
     (case map_of (logs st) (session_id s, db_path s) of None \<Rightarrow> [] | Some xs \<Rightarrow> xs)"

definition append_log :: "session \<Rightarrow> item list \<Rightarrow> mem \<Rightarrow> mem" where
  "append_log s xs st =
     st\<lparr>logs := ((session_id s, db_path s), log_of st s @ xs)
                   # filter (\<lambda>p. \<not> (fst p = (session_id s, db_path s))) (logs st)\<rparr>"

text \<open>
  The reference runtime answers every message with the same sentence and appends the
  user's message and its answer to the session, as the agent library does after a run.
\<close>

definition mem_agents :: "mem agents_api" where
  "mem_agents =
     \<lparr>sqlite_session_init = (\<lambda>s st. (Inr (), st)),
      get_items = (\<lambda>s st. (Inr (log_of st s), st)),
      runner_run = (\<lambda>a msg s st.
         (Inr \<lparr>final_output = ''Te escucho.''\<rparr>,
          append_log s [Item ''user'' msg, Item ''assistant'' ''Te escucho.''] st))\<rparr>"

text \<open>Two runtimes whose turn fails: with a library error, and with a cancellation.\<close>

definition failing_agents :: "mem agents_api" where
  "failing_agents =
     mem_agents\<lparr>runner_run := (\<lambda>a msg s st.
       (Inl (OtherException ''APIConnectionError'' ''Connection error.''), st))\<rparr>"

definition cancelled_agents :: "mem agents_api" where
  "cancelled_agents =
     mem_agents\<lparr>runner_run := (\<lambda>a msg s st.
       (Inl (NonException ''CancelledError'' []), st))\<rparr>"

definition responders0 :: responders where
  "responders0 =
     \<lparr>agente_de_respuestas_salud_mental =
        Inr (Agent ''AgenteDeRespuestasDeSaludMental'' None ''r'' [] []),
      agente_de_salud_mental_coloquial =
        Inr (Agent ''AgenteDeSaludMentalColoquial'' None ''c'' [] []),
      agente_de_transtornos_salud_mental =
        Inr (Agent ''AgenteDeTranstornosDeSaludMental'' None ''t'' [] [])\<rparr>"

definition env0 :: environ where
  "env0 = [''CHROMA_API_KEY'' \<mapsto> ''key'', ''CHROMA_TENANT_ID'' \<mapsto> ''tenant'',
           ''CHROMA_DATABASE_NAME'' \<mapsto> ''clinic'', ''OPENAI_API_KEY'' \<mapsto> ''sk'']"

text \<open>The defaults of a process that imported the modules under \<open>env0\<close>.\<close>

definition cfg0 :: ChromaConfig where
  "cfg0 = ChromaConfig_defaults env0"

definition svc0 :: ChromaService where
  "svc0 =
     \<lparr>cfg = \<lparr>database = ''clinic'', path = ''Development'', openai_api_key = Some ''sk'',
             openai_model = ''text-embedding-3-small''\<rparr>,
      cached_client = None, collection = None\<rparr>"

definition client0 :: client where
  "client0 = CloudClient ''key'' ''tenant'' ''clinic''"

definition embedder0 :: embedder where
  "embedder0 = OpenAIEmbeddingFunction ''sk'' ''text-embedding-3-small''"

definition screenings0 :: collection where
  "screenings0 = Collection client0 ''mental_health_screenings'' embedder0 hnsw_cosine"

definition empty_world :: "mem world" where
  "empty_world = \<lparr>store = \<lparr>collections = [], logs = []\<rparr>, calls = []\<rparr>"

definition screening_rows :: "row list" where
  "screening_rows =
     [(''s1'', ''PHQ-9'', []), (''s2'', ''GAD-7'', []), (''s3'', ''ISI'', []),
      (''s4'', ''AUDIT'', [])]"

definition seeded_world :: "mem world" where
  "seeded_world =
     \<lparr>store = \<lparr>collections = [(''mental_health_screenings'', screening_rows)], logs = []\<rparr>,
      calls = []\<rparr>"


text \<open>A user with one earlier turn on record, and the objects of one more turn.\<close>

definition session_u1 :: session where
  "session_u1 = \<lparr>session_id = ''session_u1'', db_path = ''conversations.db''\<rparr>"

definition earlier_turn :: "item list" where
  "earlier_turn = [Item ''user'' ''buenas'', Item ''assistant'' ''Te escucho.'']"

definition prior_world :: "mem world" where
  "prior_world =
     \<lparr>store = \<lparr>collections = [],
               logs = [((''session_u1'', ''conversations.db''), earlier_turn)]\<rparr>,
      calls = []\<rparr>"

definition orq0 :: Orquestador where
  "orq0 = Orquestador_init ''u1'' ''hola''"

definition terapybot0 :: agent where
  "terapybot0 =
     Agent ''TerapyBot'' (Some ''gpt-5-mini'') ''PROMPT'' []
       [Plain (Agent ''AgenteDeRespuestasDeSaludMental'' None ''r'' [] []),
        Handoff (Agent ''AgenteDeSaludMentalColoquial'' None ''c'' [] []),
        Handoff (Agent ''AgenteDeTranstornosDeSaludMental'' None ''t'' [] []),
        Handoff agente_de_examenes_salud_mental]"

definition psychology0 :: PsychologyClinicAgent where
  "psychology0 =
     \<lparr>model = ''gpt-5-mini'',
      chroma = \<lparr>cfg = cfg0, cached_client = None, collection = None\<rparr>\<rparr>"

definition orq1 :: Orquestador where
  "orq1 = orq0\<lparr>history := Some session_u1\<rparr>"

definition turn_reply :: pydict where
  "turn_reply =
     [''respuesta'' \<mapsto> Str ''Te escucho.'',
      ''historial'' \<mapsto> Items (earlier_turn @
         [Item ''user'' ''hola'', Item ''assistant'' ''Te escucho.''])]"

definition turn_world :: "mem world" where
  "turn_world =
     \<lparr>store = \<lparr>collections = [],
               logs = [((''session_u1'', ''conversations.db''),
                        earlier_turn @
                          [Item ''user'' ''hola'', Item ''assistant'' ''Te escucho.''])]\<rparr>,
      calls = [New_SQLiteSession session_u1, Runner_run terapybot0 ''hola'' session_u1,
               Session_get_items session_u1]\<rparr>"

definition lookup_world :: "mem world \<Rightarrow> mem world" where
  "lookup_world w =
     \<lparr>store = store w,
      calls = calls w @
        [New_CloudClient client0, New_OpenAIEmbeddingFunction embedder0,
         Get_or_create_collection screenings0]\<rparr>"

text \<open>
  A database file that cannot be opened, a session whose items cannot be read after the
  turn, and a responder constructor that raises; then the world once the session of
  user \<open>u1\<close> has been opened in \<open>prior_world\<close>.
\<close>

definition locked_agents :: "mem agents_api" where
  "locked_agents =
     mem_agents\<lparr>sqlite_session_init := (\<lambda>s st.
       (Inl (OtherException ''OperationalError'' ''unable to open database file''), st))\<rparr>"

definition unreadable_agents :: "mem agents_api" where
  "unreadable_agents =
     mem_agents\<lparr>get_items := (\<lambda>s st.
       (Inl (OtherException ''OperationalError'' ''database is locked''), st))\<rparr>"

definition failing_responders :: responders where
  "failing_responders =
     responders0\<lparr>agente_de_transtornos_salud_mental :=
       Inl (OtherException ''TypeError'' ''unexpected keyword argument'')\<rparr>"

definition session_world :: "mem world" where
  "session_world = \<lparr>store = store prior_world, calls = [New_SQLiteSession session_u1]\<rparr>"

section \<open>Properties\<close>

lemmas io_defs = lib_def raise_def return_def bind_def Let_def

lemmas chroma_defs =
  query_def get_or_create_collection_svc_def create_client_def create_embedder_def
  client_property_def getenv_def getenv_default_def not_opt_str_def not_str_def
  hnsw_cosine_def query_include_def

lemmas ref_defs =
  mem_chroma_def mem_query_def mem_write_def rows_of_def has_collection_def put_rows_def
  drop_collection_def same_lengths_def env0_def svc0_def client0_def embedder0_def
  screenings0_def empty_world_def seeded_world_def screening_rows_def

lemmas agents_defs =
  generate_response_def generate_response_try_def get_all_history_def
  create_history_session_def create_and_get_session_id_def
  PsychologyClinicAgent_init_def get_chroma_service_def ChromaService_init_def
  validate_cfg_def ChromaConfig_defaults_def agentPsychology_def agentPsychology_try_def
  handoff_def Orquestador_init_def getenv_def getenv_default_def not_str_def

lemmas ref_agents_defs =
  mem_agents_def failing_agents_def cancelled_agents_def responders0_def log_of_def
  append_log_def env0_def prior_world_def orq0_def session_u1_def earlier_turn_def
  terapybot0_def psychology0_def cfg0_def

subsection \<open>The retrieval tool\<close>



lemma query_empty:
  "query mem_chroma env0 svc0 ''mental_health_screenings'' [''insomnio''] 3 empty_world =
     (Inr \<lparr>ids = [[]], documents = Some [[]], metadatas = Some [[]]\<rparr>,
      \<lparr>store = \<lparr>collections = [(''mental_health_screenings'', [])], logs = []\<rparr>,
       calls = [New_CloudClient client0, New_OpenAIEmbeddingFunction embedder0,
         Get_or_create_collection screenings0,
         Collection_query screenings0 [''insomnio''] 3 query_include]\<rparr>)"
  by (simp add: chroma_defs ref_defs io_defs)

text \<open>
  C1 does not hold of the code. A query with one query text gets one inner list of
  documents; for a collection that holds no document this inner list is empty and the
  outer list is \<open>[[]]\<close>. The test \<open>if results['documents']\<close> looks at the outer list,
  which is not empty, so \<open>buscar_conocimiento_con_RAG\<close> returns the header
  \<open>informacion_encontrada\<close> with nothing under it, and not the sentinel
  \<open>no_se_encontro\<close> that the next line of the source is there to return.
\<close>

theorem buscar_conocimiento_con_RAG_zero_documents:
  "query mem_chroma env0 svc0 ''mental_health_screenings'' [''insomnio''] 3 empty_world =
     (Inr \<lparr>ids = [[]], documents = Some [[]], metadatas = Some [[]]\<rparr>,
      \<lparr>store = \<lparr>collections = [(''mental_health_screenings'', [])], logs = []\<rparr>,
       calls = [New_CloudClient client0, New_OpenAIEmbeddingFunction embedder0,
         Get_or_create_collection screenings0,
         Collection_query screenings0 [''insomnio''] 3 query_include]\<rparr>)
   \<and> fst (buscar_conocimiento_con_RAG mem_chroma env0 svc0 ''insomnio'' empty_world) =
       Inr (''Informaci'' @ o_acute @ ''n encontrada:\<newline>'')
   \<and> ''Informaci'' @ o_acute @ ''n encontrada:\<newline>'' \<noteq> no_se_encontro
   \<and> ''Informaci'' @ o_acute @ ''n encontrada:\<newline>'' \<noteq> ''No relevant information found.''"
  by (simp add: buscar_conocimiento_con_RAG_def query_empty bind_def return_def
        informacion_encontrada_def no_se_encontro_def o_acute_def)




subsection \<open>The knowledge store client\<close>

text \<open>
  C8. With an empty \<open>texts\<close> list, \<open>add_texts\<close> and \<open>upsert_texts\<close> return normally,
  whatever the collection name, the metadatas and the ids are, and the world afterwards
  is the world before: the store is the same and no library call was logged, so no
  collection was looked up, created or written.
\<close>

theorem empty_texts_noop:
  "add_texts api env svc [] name metas idents w = (Inr (), w)
   \<and> upsert_texts api env svc [] name metas idents w = (Inr (), w)"
  by (simp add: add_texts_def upsert_texts_def return_def)

theorem empty_texts_noop_witness:
  "add_texts mem_chroma env0 svc0 [] ''mental_health_screenings'' [[]] [''s9''] seeded_world
     = (Inr (), seeded_world)
   \<and> upsert_texts mem_chroma env0 svc0 [] ''mental_health_screenings'' [[]] [''s9'']
       seeded_world = (Inr (), seeded_world)"
  using empty_texts_noop [of mem_chroma env0 svc0 "''mental_health_screenings''"
          "[[]]" "[''s9'']" seeded_world]
  by simp

lemma lookup_seeded:
  "get_or_create_collection_svc mem_chroma env0 svc0 ''mental_health_screenings'' seeded_world
     = (Inr screenings0, lookup_world seeded_world)"
  by (simp add: chroma_defs ref_defs io_defs lookup_world_def)

text \<open>
  C6, as amended. \<open>upsert_texts\<close> does not compare the three lengths itself. With an
  empty \<open>texts\<close> list it returns normally without contacting the store, whatever the
  lengths of the metadatas and the ids. With a non-empty \<open>texts\<close> list, once the
  collection has been looked up, it hands the texts, the metadatas and the ids unchanged
  to the collection's \<open>upsert\<close> and returns or raises exactly as that library call does.
\<close>

theorem upsert_texts_forwards:
  "upsert_texts api env svc [] name metas idents w = (Inr (), w)
   \<and> (texts \<noteq> [] \<and> get_or_create_collection_svc api env svc name w = (Inr col, w1) \<longrightarrow>
        upsert_texts api env svc texts name metas idents w =
          (fst (collection_upsert api col texts metas idents (store w1)),
           \<lparr>store = snd (collection_upsert api col texts metas idents (store w1)),
            calls = calls w1 @ [Collection_upsert col texts metas idents]\<rparr>))"
  by (auto simp: upsert_texts_def io_defs split: prod.splits)

theorem upsert_texts_forwards_witness:
  "[''PSQI'', ''MDQ''] \<noteq> []
   \<and> get_or_create_collection_svc mem_chroma env0 svc0 ''mental_health_screenings''
        seeded_world
      = (Inr screenings0, lookup_world seeded_world)
   \<and> upsert_texts mem_chroma env0 svc0 [''PSQI'', ''MDQ''] ''mental_health_screenings''
        [[]] [''s5'', ''s6''] seeded_world
      = (Inl (ValueError ''Unequal lengths''),
         \<lparr>store = store (lookup_world seeded_world),
          calls = calls (lookup_world seeded_world) @
            [Collection_upsert screenings0 [''PSQI'', ''MDQ''] [[]] [''s5'', ''s6'']]\<rparr>)"
  using upsert_texts_forwards [of mem_chroma env0 svc0 "''mental_health_screenings''" "[[]]"
          "[''s5'', ''s6'']" seeded_world "[''PSQI'', ''MDQ'']" screenings0
          "lookup_world seeded_world"]
  by (simp add: lookup_seeded)
     (simp add: mem_chroma_def mem_write_def same_lengths_def)

text \<open>
  No texts, no metadatas and two ids: the three lengths are not all equal, and the call
  returns normally.
\<close>

theorem upsert_texts_unequal_lengths_counterexample:
  "length ([] :: pystr list) \<noteq> length [''s5'', ''s6'']
   \<and> upsert_texts mem_chroma env0 svc0 [] ''mental_health_screenings'' [] [''s5'', ''s6'']
        seeded_world = (Inr (), seeded_world)"
  by (simp add: upsert_texts_def return_def)

text \<open>
  C9. Let \<open>present\<close> tell which collections a store holds, and let the library behave as
  its documentation says: deleting a collection that is not present raises and leaves
  the store as it was, and connecting a client neither creates nor drops a collection.
  Then for every name that is not present, \<open>reset_collection\<close> raises, the collection is
  still not present afterwards, and no lookup (\<open>get_or_create_collection\<close>) was made: the
  delete comes first and its failure ends the call.
\<close>

theorem reset_collection_absent:
  assumes strict:
      "\<And>c n s. \<not> present s n \<Longrightarrow> \<exists>e. delete_collection api c n s = (Inl e, s)"
    and connect:
      "\<And>c s r s'. cloud_client_init api c s = (r, s') \<Longrightarrow> present s' = present s"
    and absent: "\<not> present (store w) name"
  shows "\<exists>e svc' w' new.
           reset_collection api env svc name w = (Inl e, svc', w')
         \<and> \<not> present (store w') name
         \<and> calls w' = calls w @ new
         \<and> (\<forall>col. Get_or_create_collection col \<notin> set new)"
proof (cases "client_property api env svc w")
  case (Pair r w1)
  have frame: "present (store w1) = present (store w)"
    and log: "\<exists>new. calls w1 = calls w @ new
                \<and> (\<forall>col. Get_or_create_collection col \<notin> set new)"
    using Pair connect
    unfolding client_property_def create_client_def
    by (auto simp: io_defs split: option.splits if_splits prod.splits sum.splits)
  show ?thesis
  proof (cases r)
    case (Inl e)
    with Pair frame log absent show ?thesis
      by (auto simp: reset_collection_def)
  next
    case (Inr cs)
    obtain c svc1 where cs: "cs = (c, svc1)"
      by (cases cs)
    from frame absent have "\<not> present (store w1) name"
      by simp
    from strict [OF this] obtain e where
      d: "delete_collection api c name (store w1) = (Inl e, store w1)"
      by blast
    from log obtain new where new: "calls w1 = calls w @ new"
      "\<forall>col. Get_or_create_collection col \<notin> set new"
      by blast
    have "reset_collection api env svc name w =
            (Inl e, svc1,
             \<lparr>store = store w1, calls = calls w1 @ [Delete_collection c name]\<rparr>)"
      using Pair Inr cs d by (simp add: reset_collection_def lib_def)
    with new frame absent show ?thesis
      by auto
  qed
qed

lemma reset_seeded:
  "reset_collection mem_chroma env0 svc0 ''mental_health_disorders'' seeded_world =
     (Inl (OtherException ''NotFoundError'' ''mental_health_disorders''),
      svc0\<lparr>cached_client := Some client0\<rparr>,
      \<lparr>store = store seeded_world,
       calls = [New_CloudClient client0,
                Delete_collection client0 ''mental_health_disorders'']\<rparr>)"
  by (simp add: reset_collection_def chroma_defs ref_defs io_defs)

theorem reset_collection_absent_witness:
  "\<not> has_collection (store seeded_world) ''mental_health_disorders''
   \<and> reset_collection mem_chroma env0 svc0 ''mental_health_disorders'' seeded_world =
       (Inl (OtherException ''NotFoundError'' ''mental_health_disorders''),
        svc0\<lparr>cached_client := Some client0\<rparr>,
        \<lparr>store = store seeded_world,
         calls = [New_CloudClient client0,
                  Delete_collection client0 ''mental_health_disorders'']\<rparr>)
   \<and> (\<exists>e svc' w' new.
         reset_collection mem_chroma env0 svc0 ''mental_health_disorders'' seeded_world
           = (Inl e, svc', w')
         \<and> \<not> has_collection (store w') ''mental_health_disorders''
         \<and> calls w' = calls seeded_world @ new
         \<and> (\<forall>col. Get_or_create_collection col \<notin> set new))"
proof -
  have strict: "\<And>c n s. \<not> has_collection s n \<Longrightarrow>
                  \<exists>e. delete_collection mem_chroma c n s = (Inl e, s)"
    by (simp add: mem_chroma_def)
  have connect: "\<And>c s r s'. cloud_client_init mem_chroma c s = (r, s') \<Longrightarrow>
                   has_collection s' = has_collection s"
    by (auto simp add: mem_chroma_def)
  have absent: "\<not> has_collection (store seeded_world) ''mental_health_disorders''"
    by (simp add: has_collection_def seeded_world_def)
  have raised: "\<exists>e svc' w' new.
         reset_collection mem_chroma env0 svc0 ''mental_health_disorders'' seeded_world
           = (Inl e, svc', w')
         \<and> \<not> has_collection (store w') ''mental_health_disorders''
         \<and> calls w' = calls seeded_world @ new
         \<and> (\<forall>col. Get_or_create_collection col \<notin> set new)"
    using strict connect absent
    by (rule reset_collection_absent
               [of has_collection mem_chroma seeded_world "''mental_health_disorders''"
                   env0 svc0])
  from raised absent reset_seeded show ?thesis
    by blast
qed

subsection \<open>The principal agent\<close>

text \<open>
  C7. Every agent that \<open>agentPsychology\<close> returns has a handoff list of four entries:
  the first is the response-template responder passed as it is, without a \<open>handoff\<close>
  wrapper, and it is the only such entry; the other three (colloquial, disorders,
  examinations, in this order) are each wrapped by \<open>handoff\<close>.
\<close>

theorem agentPsychology_handoffs:
  assumes "agentPsychology rs P self uid msg = Inr a"
  shows "\<exists>r c t.
           agente_de_respuestas_salud_mental rs = Inr r
         \<and> agente_de_salud_mental_coloquial rs = Inr c
         \<and> agente_de_transtornos_salud_mental rs = Inr t
         \<and> handoffs a =
             [Plain r, Handoff c, Handoff t, Handoff agente_de_examenes_salud_mental]
         \<and> filter is_plain (handoffs a) = [Plain r]
         \<and> hd (handoffs a) = Plain r
         \<and> filter is_handoff (tl (handoffs a)) = tl (handoffs a)"
  using assms
  by (auto simp: agentPsychology_def agentPsychology_try_def handoff_def Let_def
           split: sum.splits if_splits)

lemma assemble_eval:
  "agentPsychology responders0 ''PROMPT'' psychology0 ''u1'' ''hola'' = Inr terapybot0"
  by (simp add: agentPsychology_def agentPsychology_try_def handoff_def responders0_def
        psychology0_def terapybot0_def)

theorem agentPsychology_handoffs_witness:
  "agentPsychology responders0 ''PROMPT'' psychology0 ''u1'' ''hola'' = Inr terapybot0
   \<and> length (filter is_plain (handoffs terapybot0)) = 1
   \<and> (\<exists>r c t.
         agente_de_respuestas_salud_mental responders0 = Inr r
       \<and> agente_de_salud_mental_coloquial responders0 = Inr c
       \<and> agente_de_transtornos_salud_mental responders0 = Inr t
       \<and> handoffs terapybot0 =
           [Plain r, Handoff c, Handoff t, Handoff agente_de_examenes_salud_mental]
       \<and> filter is_plain (handoffs terapybot0) = [Plain r]
       \<and> hd (handoffs terapybot0) = Plain r
       \<and> filter is_handoff (tl (handoffs terapybot0)) = tl (handoffs terapybot0))"
proof -
  have n: "length (filter is_plain (handoffs terapybot0)) = 1"
    by (simp add: terapybot0_def)
  from agentPsychology_handoffs [OF assemble_eval] assemble_eval n show ?thesis
    by blast
qed

subsection \<open>History and the orchestrator\<close>

text \<open>
  C5. The session that \<open>create_and_get_session_id\<close> returns for a user id has the session
  identifier \<open>session_\<close> followed by the user id and the database file
  \<open>conversations.db\<close>. So any two calls for the same user id that return, in whatever
  state of the outside world, return the same session: same identifier, same file.
\<close>

theorem create_and_get_session_id_stable:
  assumes "create_and_get_session_id api uid w = (Inr s, w')"
      and "create_and_get_session_id api' uid v = (Inr s', v')"
  shows "s = s' \<and> session_id s = ''session_'' @ uid \<and> db_path s = ''conversations.db''"
  using assms
  by (auto simp: create_and_get_session_id_def io_defs split: prod.splits sum.splits)

lemma session_eval:
  "create_and_get_session_id mem_agents ''u1'' w =
     (Inr session_u1, \<lparr>store = store w, calls = calls w @ [New_SQLiteSession session_u1]\<rparr>)"
  by (simp add: create_and_get_session_id_def io_defs mem_agents_def session_u1_def)

theorem create_and_get_session_id_stable_witness:
  "create_and_get_session_id mem_agents ''u1'' empty_world =
     (Inr session_u1,
      \<lparr>store = store empty_world,
       calls = calls empty_world @ [New_SQLiteSession session_u1]\<rparr>)
   \<and> create_and_get_session_id mem_agents ''u1'' prior_world =
     (Inr session_u1,
      \<lparr>store = store prior_world,
       calls = calls prior_world @ [New_SQLiteSession session_u1]\<rparr>)
   \<and> session_id session_u1 = ''session_'' @ ''u1''
   \<and> db_path session_u1 = ''conversations.db''"
  using create_and_get_session_id_stable
          [OF session_eval [of empty_world] session_eval [of prior_world]]
  by (simp add: session_eval)

text \<open>
  C10. While no history session has been created for the orchestrator
  (\<open>self.history is None\<close>), \<open>_get_all_history\<close> returns the empty list; it does not raise,
  and the world afterwards is the world before, with no library call logged: nothing
  was read, even where the storage holds items for that user.
\<close>

theorem get_all_history_no_session:
  "history self = None \<Longrightarrow> get_all_history api self uid w = (Inr [], w)"
  by (simp add: get_all_history_def return_def)

theorem get_all_history_no_session_witness:
  "history orq0 = None
   \<and> log_of (store prior_world) session_u1 = earlier_turn
   \<and> get_all_history mem_agents orq0 ''u1'' prior_world = (Inr [], prior_world)"
proof -
  have h: "history orq0 = None"
    by (simp add: orq0_def Orquestador_init_def)
  from get_all_history_no_session [OF h, of mem_agents "''u1''" prior_world] h
  show ?thesis
    by (simp add: log_of_def prior_world_def session_u1_def)
qed

text \<open>
  Whenever the \<open>try\<close> block of \<open>generate_response\<close> returns, the last two library calls
  were the run and, after it, the reading of the items of the same session.
\<close>

lemma generate_response_try_success:
  assumes "generate_response_try api rs P defaults self w = (Inr d, self', w')"
  shows "\<exists>h a res st0 st items pre.
           history self' = Some h
         \<and> calls w' = pre @ [Runner_run a (message self) h, Session_get_items h]
         \<and> runner_run api a (message self) h st0 = (Inr res, st)
         \<and> get_items api h st = (Inr items, store w')
         \<and> d = [''respuesta'' \<mapsto> Str (final_output res), ''historial'' \<mapsto> Items items]"
  using assms
  unfolding generate_response_try_def get_all_history_def
  by (fastforce simp: io_defs split: prod.splits sum.splits option.splits)

lemma turn_eval:
  "generate_response mem_agents responders0 ''PROMPT'' cfg0 orq0 prior_world =
     (Inr turn_reply, orq1, turn_world)"
  by (simp add: agents_defs ref_agents_defs io_defs orq1_def turn_reply_def turn_world_def)

text \<open>
  C4. Whenever \<open>generate_response\<close> returns a dictionary that is not the error payload,
  the run of the agent runtime returned a result, the next and last library call read
  the items of the same session in the state of the world the run had left, and the
  dictionary holds the final output of the run under \<open>respuesta\<close> and exactly the items
  of that reading under \<open>historial\<close>: whatever the run has recorded of the turn is in it.
\<close>

theorem generate_response_history:
  assumes "generate_response api rs P defaults self w = (Inr d, self', w')"
      and "d ''error'' = None"
  shows "\<exists>h a res st0 st items pre.
           history self' = Some h
         \<and> calls w' = pre @ [Runner_run a (message self) h, Session_get_items h]
         \<and> runner_run api a (message self) h st0 = (Inr res, st)
         \<and> get_items api h st = (Inr items, store w')
         \<and> d = [''respuesta'' \<mapsto> Str (final_output res), ''historial'' \<mapsto> Items items]"
proof -
  from assms have "generate_response_try api rs P defaults self w = (Inr d, self', w')"
    by (auto simp: generate_response_def split: prod.splits sum.splits if_splits)
  then show ?thesis
    by (rule generate_response_try_success)
qed

theorem generate_response_history_witness:
  "generate_response mem_agents responders0 ''PROMPT'' cfg0 orq0 prior_world =
     (Inr turn_reply, orq1, turn_world)
   \<and> turn_reply ''error'' = None
   \<and> turn_reply ''historial'' =
       Some (Items [Item ''user'' ''buenas'', Item ''assistant'' ''Te escucho.'',
                    Item ''user'' ''hola'', Item ''assistant'' ''Te escucho.''])
   \<and> (\<exists>h a res st0 st items pre.
         history orq1 = Some h
       \<and> calls turn_world = pre @ [Runner_run a (message orq0) h, Session_get_items h]
       \<and> runner_run mem_agents a (message orq0) h st0 = (Inr res, st)
       \<and> get_items mem_agents h st = (Inr items, store turn_world)
       \<and> turn_reply =
           [''respuesta'' \<mapsto> Str (final_output res), ''historial'' \<mapsto> Items items])"
proof -
  have e: "turn_reply ''error'' = None"
    by (simp add: turn_reply_def)
  have h: "turn_reply ''historial'' =
       Some (Items [Item ''user'' ''buenas'', Item ''assistant'' ''Te escucho.'',
                    Item ''user'' ''hola'', Item ''assistant'' ''Te escucho.''])"
    by (simp add: turn_reply_def earlier_turn_def)
  from generate_response_history [OF turn_eval e] turn_eval e h show ?thesis
    by blast
qed

lemma orq0_fields:
  "history orq0 = None" "user_id orq0 = ''u1''" "message orq0 = ''hola''"
  by (simp_all add: orq0_def Orquestador_init_def)

lemma session_locked:
  "create_history_session locked_agents ''u1'' prior_world =
     (Inl (OtherException ''OperationalError'' ''unable to open database file''),
      session_world)"
  by (simp add: create_history_session_def create_and_get_session_id_def io_defs
        locked_agents_def mem_agents_def session_world_def session_u1_def prior_world_def)

lemma session_opened:
  "create_history_session mem_agents ''u1'' prior_world = (Inr session_u1, session_world)"
  "create_history_session failing_agents ''u1'' prior_world = (Inr session_u1, session_world)"
  "create_history_session cancelled_agents ''u1'' prior_world = (Inr session_u1, session_world)"
  "create_history_session unreadable_agents ''u1'' prior_world = (Inr session_u1, session_world)"
  by (simp_all add: create_history_session_def create_and_get_session_id_def io_defs
        mem_agents_def failing_agents_def cancelled_agents_def unreadable_agents_def
        session_world_def session_u1_def prior_world_def)

lemma init_cfg0: "PsychologyClinicAgent_init cfg0 = Inr psychology0"
  by (simp add: PsychologyClinicAgent_init_def get_chroma_service_def ChromaService_init_def
        validate_cfg_def not_str_def cfg0_def ChromaConfig_defaults_def getenv_default_def
        env0_def psychology0_def)

lemma assemble_fails:
  "agentPsychology failing_responders ''PROMPT'' psychology0 ''u1'' ''hola'' =
     Inl (RuntimeError ''Error al procesar mensaje: unexpected keyword argument'')"
  by (simp add: agentPsychology_def agentPsychology_try_def failing_responders_def
        responders0_def)

lemma run_fails:
  "runner_run failing_agents terapybot0 ''hola'' session_u1 (store session_world) =
     (Inl (OtherException ''APIConnectionError'' ''Connection error.''), store session_world)"
  by (simp add: failing_agents_def)

lemma run_cancelled:
  "runner_run cancelled_agents terapybot0 ''hola'' session_u1 (store session_world) =
     (Inl (NonException ''CancelledError'' []), store session_world)"
  by (simp add: cancelled_agents_def)

lemma run_then_unreadable:
  "runner_run unreadable_agents terapybot0 ''hola'' session_u1 (store session_world) =
     (Inr \<lparr>final_output = ''Te escucho.''\<rparr>, store turn_world)"
  "get_items unreadable_agents session_u1 (store turn_world) =
     (Inl (OtherException ''OperationalError'' ''database is locked''), store turn_world)"
  by (simp_all add: unreadable_agents_def mem_agents_def append_log_def log_of_def
        session_world_def prior_world_def turn_world_def session_u1_def)

text \<open>
  C2, as amended. Whichever step of the \<open>try\<close> block of \<open>generate_response\<close> raises
  (the creation of the history session, the assembly of the agent, the turn of the
  runtime, or the re-reading of the history after it), and in general whenever the
  block raises: if what was raised is an instance of \<open>Exception\<close>, the caller gets the
  dictionary with the single key \<open>error\<close>, mapped to "Error procesando la solicitud: "
  followed by the text of the exception; if it is not (a cancellation, an interrupt, an
  exit), the handler does not catch it and the caller gets the exception itself. So
  nothing that \<open>generate_response\<close> lets through is an instance of \<open>Exception\<close>.
\<close>

theorem generate_response_catches:
  "(let R = fst (generate_response api rs P defaults self w);
        H = (\<lambda>e. if is_Exception e
                  then Inr [''error'' \<mapsto> Str (''Error procesando la solicitud: '' @ str_exn e)]
                  else Inl e);
        session_step = (case history self of
                          None \<Rightarrow> create_history_session api (user_id self) w
                        | Some h \<Rightarrow> (Inr h, w))
    in (session_step = (Inl e, w1) \<longrightarrow> R = H e)
     \<and> (session_step = (Inr h, w1) \<and> PsychologyClinicAgent_init defaults = Inr p \<longrightarrow>
          (agentPsychology rs P p (user_id self) (message self) = Inl e \<longrightarrow> R = H e)
        \<and> (agentPsychology rs P p (user_id self) (message self) = Inr a \<longrightarrow>
             (runner_run api a (message self) h (store w1) = (Inl e, st2) \<longrightarrow> R = H e)
           \<and> (runner_run api a (message self) h (store w1) = (Inr res, st2)
                \<and> get_items api h st2 = (Inl e, st3) \<longrightarrow> R = H e)))
     \<and> (fst (generate_response_try api rs P defaults self w) = Inl e \<longrightarrow> R = H e)
     \<and> (\<forall>e'. R = Inl e' \<longrightarrow> \<not> is_Exception e'))"
  unfolding Let_def generate_response_def generate_response_try_def get_all_history_def
  by (auto simp: lib_def return_def split: prod.splits sum.splits if_splits option.splits)

theorem generate_response_catches_witness:
  "create_history_session locked_agents ''u1'' prior_world =
     (Inl (OtherException ''OperationalError'' ''unable to open database file''),
      session_world)
   \<and> fst (generate_response locked_agents responders0 ''PROMPT'' cfg0 orq0 prior_world) =
       Inr [''error'' \<mapsto> Str ''Error procesando la solicitud: unable to open database file'']
   \<and> agentPsychology failing_responders ''PROMPT'' psychology0 ''u1'' ''hola'' =
       Inl (RuntimeError ''Error al procesar mensaje: unexpected keyword argument'')
   \<and> fst (generate_response mem_agents failing_responders ''PROMPT'' cfg0 orq0 prior_world) =
       Inr [''error'' \<mapsto> Str (''Error procesando la solicitud: ''
                              @ ''Error al procesar mensaje: unexpected keyword argument'')]
   \<and> runner_run failing_agents terapybot0 ''hola'' session_u1 (store session_world) =
       (Inl (OtherException ''APIConnectionError'' ''Connection error.''), store session_world)
   \<and> fst (generate_response failing_agents responders0 ''PROMPT'' cfg0 orq0 prior_world) =
       Inr [''error'' \<mapsto> Str ''Error procesando la solicitud: Connection error.'']
   \<and> runner_run cancelled_agents terapybot0 ''hola'' session_u1 (store session_world) =
       (Inl (NonException ''CancelledError'' []), store session_world)
   \<and> fst (generate_response cancelled_agents responders0 ''PROMPT'' cfg0 orq0 prior_world) =
       Inl (NonException ''CancelledError'' [])
   \<and> get_items unreadable_agents session_u1 (store turn_world) =
       (Inl (OtherException ''OperationalError'' ''database is locked''), store turn_world)
   \<and> fst (generate_response unreadable_agents responders0 ''PROMPT'' cfg0 orq0 prior_world) =
       Inr [''error'' \<mapsto> Str ''Error procesando la solicitud: database is locked'']"
proof -
  have s1: "fst (generate_response locked_agents responders0 ''PROMPT'' cfg0 orq0 prior_world) =
       Inr [''error'' \<mapsto> Str ''Error procesando la solicitud: unable to open database file'']"
    using generate_response_catches [where api = locked_agents and rs = responders0 and P = "''PROMPT''"
            and defaults = cfg0 and self = orq0 and w = prior_world
            and e = "OtherException ''OperationalError'' ''unable to open database file''"
            and ?w1.0 = session_world]
    by (simp add: Let_def orq0_fields session_locked)
  have s2: "fst (generate_response mem_agents failing_responders ''PROMPT'' cfg0 orq0
                   prior_world) =
       Inr [''error'' \<mapsto> Str (''Error procesando la solicitud: ''
                              @ ''Error al procesar mensaje: unexpected keyword argument'')]"
    using generate_response_catches [where api = mem_agents and rs = failing_responders
            and P = "''PROMPT''" and defaults = cfg0 and self = orq0 and w = prior_world
            and e = "RuntimeError ''Error al procesar mensaje: unexpected keyword argument''"
            and ?w1.0 = session_world and h = session_u1 and p = psychology0]
    by (simp add: Let_def orq0_fields session_opened init_cfg0 assemble_fails)
  have s3: "fst (generate_response failing_agents responders0 ''PROMPT'' cfg0 orq0 prior_world) =
       Inr [''error'' \<mapsto> Str ''Error procesando la solicitud: Connection error.'']"
    using generate_response_catches [where api = failing_agents and rs = responders0
            and P = "''PROMPT''" and defaults = cfg0 and self = orq0 and w = prior_world
            and e = "OtherException ''APIConnectionError'' ''Connection error.''"
            and ?w1.0 = session_world and h = session_u1 and p = psychology0
            and a = terapybot0 and ?st2.0 = "store session_world"]
    by (simp add: Let_def orq0_fields session_opened init_cfg0 assemble_eval run_fails)
  have s3': "fst (generate_response cancelled_agents responders0 ''PROMPT'' cfg0 orq0
                    prior_world) = Inl (NonException ''CancelledError'' [])"
    using generate_response_catches [where api = cancelled_agents and rs = responders0
            and P = "''PROMPT''" and defaults = cfg0 and self = orq0 and w = prior_world
            and e = "NonException ''CancelledError'' []"
            and ?w1.0 = session_world and h = session_u1 and p = psychology0
            and a = terapybot0 and ?st2.0 = "store session_world"]
    by (simp add: Let_def orq0_fields session_opened init_cfg0 assemble_eval run_cancelled)
  have s4: "fst (generate_response unreadable_agents responders0 ''PROMPT'' cfg0 orq0
                   prior_world) =
       Inr [''error'' \<mapsto> Str ''Error procesando la solicitud: database is locked'']"
    using generate_response_catches [where api = unreadable_agents and rs = responders0
            and P = "''PROMPT''" and defaults = cfg0 and self = orq0 and w = prior_world
            and e = "OtherException ''OperationalError'' ''database is locked''"
            and ?w1.0 = session_world and h = session_u1 and p = psychology0
            and a = terapybot0 and ?st2.0 = "store turn_world"
            and res = "\<lparr>final_output = ''Te escucho.''\<rparr>" and ?st3.0 = "store turn_world"]
    by (simp add: Let_def orq0_fields session_opened init_cfg0 assemble_eval
          run_then_unreadable)
  from s1 s2 s3 s3' s4 session_locked assemble_fails run_fails run_cancelled
       run_then_unreadable(2)
  show ?thesis by simp
qed

text \<open>
  A turn that is cancelled while the runtime is awaited raises \<open>CancelledError\<close>, which
  is not an \<open>Exception\<close>: the handler does not catch it and the caller receives it.
\<close>

theorem generate_response_cancelled_counterexample:
  "fst (generate_response cancelled_agents responders0 ''PROMPT'' cfg0 orq0 prior_world) =
     Inl (NonException ''CancelledError'' [])"
  by (simp add: agents_defs ref_agents_defs io_defs)

end
